theory Spec2Isabelle
  imports Complex_Main "HOL-Library.Word" "HOL-Library.AList"
    "HOL-Library.Char_ord" "HOL-Library.List_Lexorder"
begin

section \<open>Values held in Go interface fields\<close>

text \<open>
  The envelopes of \<^verbatim>\<open>internal/mcp\<close> keep \<^verbatim>\<open>id\<close>, \<^verbatim>\<open>params\<close>, \<^verbatim>\<open>result\<close> and
  \<^verbatim>\<open>data\<close> in fields of type \<^verbatim>\<open>interface{}\<close>.  A value of that type carries its
  dynamic type, and the dynamic type is what map keys and type assertions look at, so
  the model keeps it: an \<^verbatim>\<open>int64\<close> and a \<^verbatim>\<open>float64\<close> of the same magnitude are
  different values.  A \<^verbatim>\<open>float64\<close> is represented by the rational number it
  denotes; a struct value is \<open>GStruct\<close> with the name of its type and its fields
  under their JSON tags in declaration order; \<open>GMap\<close> is
  \<^verbatim>\<open>map[string]interface{}\<close> as an association list; a slice of any element type
  is \<open>GSlice\<close>.
\<close>

datatype goval =
    GNil
  | GBool bool
  | GInt64 "64 word"
  | GFloat64 rat
  | GString string
  | GSlice "goval list"
  | GMap "(string \<times> goval) list"
  | GStruct string "(string \<times> goval) list"

section \<open>Envelopes (server.go, lines 39-57)\<close>

record MCPRequest =
  JSONRPC :: string
  ID :: goval
  Method :: string
  Params :: goval

record MCPError =
  Code :: int
  Message :: string
  Data :: goval

record MCPResponse =
  rJSONRPC :: string
  rID :: goval
  Result :: goval
  Error :: "MCPError option"

section \<open>Collaborators: file system and tool registry\<close>

text \<open>
  \<^verbatim>\<open>os.ReadFile\<close> either fails with a message or returns the bytes of the file.  The
  file system is a function from paths to that outcome; opening the empty path fails
  on every system (\<^verbatim>\<open>ENOENT\<close>), with the message Go prints for it.
\<close>

type_synonym fs = "string \<Rightarrow> string + string"

definition os_ReadFile :: "fs \<Rightarrow> string \<Rightarrow> string + string" where
  "os_ReadFile files path =
     (if path = [] then Inl ''open : no such file or directory'' else files path)"

text \<open>
  A tool (registry.go, the \<^verbatim>\<open>Tool\<close> interface) has a name, a description, a
  parameter schema and \<^verbatim>\<open>Execute\<close>, which may change the file system and returns a
  text, returns an error, or panics (as \<^verbatim>\<open>SearchTool.Execute\<close> does on the unchecked
  assertion \<^verbatim>\<open>caseSensitive.(bool)\<close>).
\<close>

datatype tool_outcome = ToolResult string | ToolError string | ToolPanic

record Tool =
  tName :: string
  tDescription :: string
  tParameters :: goval
  tExecute :: "(string \<times> goval) list \<Rightarrow> fs \<Rightarrow> tool_outcome \<times> fs"

text \<open>
  \<^verbatim>\<open>Registry.tools\<close> is a Go map from names to tools.  It is an association list
  here; Go leaves the iteration order of a map unspecified, and the list order stands
  for the order one iteration happens to take.
\<close>

type_synonym Registry = "(string \<times> Tool) list"

definition Register :: "Tool \<Rightarrow> Registry \<Rightarrow> Registry" where
  "Register tool r = AList.update (tName tool) tool r"

definition GetAvailable :: "Registry \<Rightarrow> (string \<times> string \<times> goval) list" where
  "GetAvailable r = map (\<lambda>(k, tool). (tName tool, tDescription tool, tParameters tool)) r"

definition Execute :: "Registry \<Rightarrow> string \<Rightarrow> (string \<times> goval) list \<Rightarrow> fs \<Rightarrow> tool_outcome \<times> fs" where
  "Execute r nm args files =
     (case map_of r nm of
        None \<Rightarrow> (ToolError (''tool '' @ nm @ '' not found''), files)
      | Some tool \<Rightarrow> tExecute tool args files)"

section \<open>The server (server.go)\<close>

record ServerCapabilities =
  capTools :: bool
  capResources :: bool
  capPrompts :: bool

record Resource =
  URI :: string
  Name :: string
  Description :: string
  MimeType :: string
  Metadata :: "(string \<times> string) list"

record Server =
  name :: string
  version :: string
  tools :: Registry
  resources :: "(string \<times> Resource) list"
  capabilities :: ServerCapabilities

text \<open>
  What a handler can read and change: the server object and the file system the tools
  and \<^verbatim>\<open>os.ReadFile\<close> work on.
\<close>

record sstate =
  srv :: Server
  files :: fs

definition NewMCPServer :: "string \<Rightarrow> string \<Rightarrow> Registry \<Rightarrow> Server" where
  "NewMCPServer nm ver toolRegistry =
     \<lparr>name = nm, version = ver, tools = toolRegistry, resources = [],
      capabilities = \<lparr>capTools = True, capResources = True, capPrompts = False\<rparr>\<rparr>"

definition RegisterResource ::
  "string \<Rightarrow> string \<Rightarrow> string \<Rightarrow> string \<Rightarrow> (string \<times> string) list \<Rightarrow> Server \<Rightarrow> Server" where
  "RegisterResource uri nm description mimeType metadata s =
     s\<lparr>resources := AList.update uri
          \<lparr>URI = uri, Name = nm, Description = description, MimeType = mimeType,
           Metadata = metadata\<rparr> (resources s)\<rparr>"

text \<open>
  \<^verbatim>\<open>RegisterResource\<close> is the only writer of the table, and it stores each
  resource under its own uri.
\<close>

definition keyed_by_uri :: "Server \<Rightarrow> bool" where
  "keyed_by_uri s = list_all (\<lambda>kr. URI (snd kr) = fst kr) (resources s)"

subsection \<open>Typed parameters re-read from the generic params\<close>

text \<open>
  Each handler tests \<^verbatim>\<open>req.Params.(map[string]interface{})\<close> and, when the assertion
  holds, marshals the map and unmarshals it into the typed parameter struct, ignoring
  both errors.  \<^verbatim>\<open>json.Marshal\<close> writes the keys of a map in sorted order;
  \<^verbatim>\<open>json.Unmarshal\<close> matches each key to a struct field by its tag, exactly or
  under case folding, stores a string into a string field, leaves the field alone on
  \<^verbatim>\<open>null\<close>, and on any other value records a type error and goes on with the next
  key.  Values inside \<^verbatim>\<open>arguments\<close> are passed on as they are.

  The folding is Unicode simple case folding.  The tags are ASCII, and besides the
  ASCII letters only two characters fold to an ASCII letter: U+017F (long s, the bytes
  C5 BF) to \<open>s\<close> and U+212A (Kelvin sign, the bytes E2 84 AA) to \<open>k\<close>.

  Strings are byte strings and are passed through unchanged.  \<^verbatim>\<open>Marshal\<close> replaces
  bytes that are not valid UTF-8 by U+FFFD; the decoder has already done so for every
  string that came off the wire, and the model does not repeat it for a request that
  is handed to \<open>handleRequest\<close> directly.
\<close>

definition lower_char :: "char \<Rightarrow> char" where
  "lower_char c =
     (let n = (of_char c :: nat) in if 65 \<le> n \<and> n \<le> 90 then char_of (n + 32) else c)"

function fold_name :: "string \<Rightarrow> string" where
  "fold_name [] = []"
| "fold_name (c # cs) =
     (if c = CHR 0xC5 \<and> take 1 cs = [CHR 0xBF] then CHR ''s'' # fold_name (drop 1 cs)
      else if c = CHR 0xE2 \<and> take 2 cs = [CHR 0x84, CHR 0xAA]
           then CHR ''k'' # fold_name (drop 2 cs)
      else lower_char c # fold_name cs)"
  by pat_completeness auto
termination
  by (relation "measure length") auto

definition fold_eq :: "string \<Rightarrow> string \<Rightarrow> bool" where
  "fold_eq tag key = (fold_name key = fold_name tag)"

definition store_string :: "goval \<Rightarrow> string \<Rightarrow> string" where
  "store_string v old = (case v of GString s \<Rightarrow> s | _ \<Rightarrow> old)"

definition store_map :: "goval \<Rightarrow> (string \<times> goval) list \<Rightarrow> (string \<times> goval) list" where
  "store_map v old =
     (case v of
        GMap kvs \<Rightarrow> foldl (\<lambda>m (k, x). AList.update k x m) old (sort_key fst kvs)
      | GStruct ty kvs \<Rightarrow> foldl (\<lambda>m (k, x). AList.update k x m) old kvs
      | GNil \<Rightarrow> []
      | _ \<Rightarrow> old)"

record CallToolParams =
  ctName :: string
  ctArguments :: "(string \<times> goval) list"

definition unmarshal_CallToolParams :: "(string \<times> goval) list \<Rightarrow> CallToolParams" where
  "unmarshal_CallToolParams kvs =
     foldl (\<lambda>p (k, v).
              if fold_eq ''name'' k then p\<lparr>ctName := store_string v (ctName p)\<rparr>
              else if fold_eq ''arguments'' k then p\<lparr>ctArguments := store_map v (ctArguments p)\<rparr>
              else p)
           \<lparr>ctName = [], ctArguments = []\<rparr> (sort_key fst kvs)"

definition CallToolParams_of :: "goval \<Rightarrow> CallToolParams" where
  "CallToolParams_of params =
     (case params of
        GMap paramsData \<Rightarrow> unmarshal_CallToolParams paramsData
      | _ \<Rightarrow> \<lparr>ctName = [], ctArguments = []\<rparr>)"

definition unmarshal_ReadResourceParams :: "(string \<times> goval) list \<Rightarrow> string" where
  "unmarshal_ReadResourceParams kvs =
     foldl (\<lambda>u (k, v). if fold_eq ''uri'' k then store_string v u else u) []
           (sort_key fst kvs)"

definition ReadResourceParams_of :: "goval \<Rightarrow> string" where
  "ReadResourceParams_of params =
     (case params of
        GMap paramsData \<Rightarrow> unmarshal_ReadResourceParams paramsData
      | _ \<Rightarrow> [])"

subsection \<open>Handlers\<close>

text \<open>A handler either returns a response or is unwound by a panic of a tool.\<close>

datatype 'a go = Panics | Returns 'a

definition error_response :: "goval \<Rightarrow> int \<Rightarrow> string \<Rightarrow> MCPResponse" where
  "error_response i c msg =
     \<lparr>rJSONRPC = ''2.0'', rID = i, Result = GNil,
      Error = Some \<lparr>Code = c, Message = msg, Data = GNil\<rparr>\<rparr>"

definition result_response :: "goval \<Rightarrow> goval \<Rightarrow> MCPResponse" where
  "result_response i r = \<lparr>rJSONRPC = ''2.0'', rID = i, Result = r, Error = None\<rparr>"

definition InitializeResult_val :: "Server \<Rightarrow> goval" where
  "InitializeResult_val s =
     GStruct ''InitializeResult''
       [(''protocolVersion'', GString ''2024-11-05''),
        (''capabilities'',
           GStruct ''ServerCapabilities''
             [(''tools'', GBool (capTools (capabilities s))),
              (''resources'', GBool (capResources (capabilities s))),
              (''prompts'', GBool (capPrompts (capabilities s)))]),
        (''serverInfo'',
           GStruct ''ServerInfo''
             [(''name'', GString (name s)), (''version'', GString (version s))])]"

definition handleInitialize :: "sstate \<Rightarrow> MCPRequest \<Rightarrow> MCPResponse go \<times> sstate" where
  "handleInitialize st req =
     (Returns (result_response (ID req) (InitializeResult_val (srv st))), st)"

definition MCPTool_val :: "string \<times> string \<times> goval \<Rightarrow> goval" where
  "MCPTool_val t =
     (case t of (nm, description, parameters) \<Rightarrow>
        GStruct ''MCPTool''
          [(''name'', GString nm), (''description'', GString description),
           (''inputSchema'', parameters)])"

definition handleListTools :: "sstate \<Rightarrow> MCPRequest \<Rightarrow> MCPResponse go \<times> sstate" where
  "handleListTools st req =
     (let mcpTools = map MCPTool_val (GetAvailable (tools (srv st)))
      in (Returns (result_response (ID req) (GMap [(''tools'', GSlice mcpTools)])), st))"

definition handleCallTool :: "sstate \<Rightarrow> MCPRequest \<Rightarrow> MCPResponse go \<times> sstate" where
  "handleCallTool st req =
     (let params = CallToolParams_of (Params req)
      in case Execute (tools (srv st)) (ctName params) (ctArguments params) (files st) of
           (ToolPanic, files') \<Rightarrow> (Panics, st\<lparr>files := files'\<rparr>)
         | (ToolError err, files') \<Rightarrow>
             (Returns (error_response (ID req) (- 32602) (''Tool execution failed: '' @ err)),
              st\<lparr>files := files'\<rparr>)
         | (ToolResult result, files') \<Rightarrow>
             (Returns (result_response (ID req)
                (GMap [(''content'',
                   GSlice [GMap [(''type'', GString ''text''), (''text'', GString result)]])])),
              st\<lparr>files := files'\<rparr>))"

definition Metadata_val :: "(string \<times> string) list \<Rightarrow> (string \<times> goval) list" where
  "Metadata_val md =
     (if md = [] then [] else [(''metadata'', GMap (map (\<lambda>(k, v). (k, GString v)) md))])"

definition Resource_val :: "Resource \<Rightarrow> goval" where
  "Resource_val r =
     GStruct ''Resource''
       ([(''uri'', GString (URI r)), (''name'', GString (Name r)),
         (''description'', GString (Description r)),
         (''mimeType'', GString (MimeType r))] @ Metadata_val (Metadata r))"

definition handleListResources :: "sstate \<Rightarrow> MCPRequest \<Rightarrow> MCPResponse go \<times> sstate" where
  "handleListResources st req =
     (let rs = map (\<lambda>(k, resource). Resource_val resource) (resources (srv st))
      in (Returns (result_response (ID req) (GMap [(''resources'', GSlice rs)])), st))"

definition readable_mime :: "string \<Rightarrow> bool" where
  "readable_mime m = (m = ''text/plain'' \<or> m = ''application/octet-stream'')"

definition contents_val :: "string \<Rightarrow> string \<Rightarrow> string \<Rightarrow> goval" where
  "contents_val uri mimeType text =
     GMap [(''contents'',
        GSlice [GMap [(''uri'', GString uri), (''mimeType'', GString mimeType),
                      (''text'', GString text)]])]"

definition handleReadResource :: "sstate \<Rightarrow> MCPRequest \<Rightarrow> MCPResponse go \<times> sstate" where
  "handleReadResource st req =
     (let uri = ReadResourceParams_of (Params req)
      in case map_of (resources (srv st)) uri of
           None \<Rightarrow> (Returns (error_response (ID req) (- 32602) ''Resource not found''), st)
         | Some resource \<Rightarrow>
             if readable_mime (MimeType resource) then
               (case os_ReadFile (files st) (URI resource) of
                  Inl err \<Rightarrow>
                    (Returns (error_response (ID req) (- 32602)
                       (''Failed to read resource: '' @ err)), st)
                | Inr content \<Rightarrow>
                    (Returns (result_response (ID req)
                       (contents_val (URI resource) (MimeType resource) content)), st))
             else (Returns (error_response (ID req) (- 32602) ''Unsupported resource type''), st))"

definition handleRequest :: "sstate \<Rightarrow> MCPRequest \<Rightarrow> MCPResponse go \<times> sstate" where
  "handleRequest st req =
     (if Method req = ''initialize'' then handleInitialize st req
      else if Method req = ''tools/list'' then handleListTools st req
      else if Method req = ''tools/call'' then handleCallTool st req
      else if Method req = ''resources/list'' then handleListResources st req
      else if Method req = ''resources/read'' then handleReadResource st req
      else (Returns (error_response (ID req) (- 32601) ''Method not found''), st))"

definition recognized :: "string \<Rightarrow> bool" where
  "recognized m = (m \<in> set [''initialize'', ''tools/list'', ''tools/call'',
                            ''resources/list'', ''resources/read''])"

section \<open>The envelope codec: encoding/json on the envelopes\<close>

text \<open>
  The wire carries a sequence of JSON values.  The model keeps each value as a tree,
  a number literal by the rational it denotes.  Two things are therefore outside the
  model: how a number is spelled (Go writes a \<^verbatim>\<open>float64\<close> as the shortest decimal
  that reads back as the same \<^verbatim>\<open>float64\<close>, and reads an \<^verbatim>\<open>int\<close> field only from
  an integer spelling, so \<^verbatim>\<open>1e2\<close> is an error there although its value is an
  integer), and the escaping of strings.  Decoding a number into an
  \<^verbatim>\<open>interface{}\<close> gives a \<^verbatim>\<open>float64\<close>: the literal rounded to the nearest value
  with a 53-bit significand, ties to even, and an error when the rounded value would
  reach \<open>2 ^ 1024\<close> (the exponent is 1024 or more, or it is 1023 and the
  significand rounds up to \<open>2 ^ 53\<close>).
\<close>

datatype json =
    JNull
  | JBool bool
  | JNum rat
  | JStr string
  | JArr "json list"
  | JObj "(string \<times> json) list"

function bit_len :: "int \<Rightarrow> int" where
  "bit_len n = (if n \<le> 0 then 0 else bit_len (n div 2) + 1)"
  by pat_completeness auto
termination
  by (relation "measure nat") auto

declare bit_len.simps [simp del]

definition floor_log2 :: "rat \<Rightarrow> int" where
  "floor_log2 a =
     (case quotient_of a of (p, d) \<Rightarrow>
        let e0 = bit_len p - bit_len d
        in if a < 2 powi e0 then e0 - 1 else e0)"

definition round_half_even :: "rat \<Rightarrow> int" where
  "round_half_even x =
     (let f = \<lfloor>x\<rfloor>; r = x - of_int f
      in if r < 1 / 2 then f else if 1 / 2 < r then f + 1
         else if even f then f else f + 1)"

definition to_float64 :: "rat \<Rightarrow> rat option" where
  "to_float64 q =
     (if q = 0 then Some 0
      else let a = \<bar>q\<bar>;
               e = max (floor_log2 a) (- 1022);
               ulp = 2 powi (e - 52);
               m = round_half_even (a / ulp)
           in if 1024 \<le> e \<or> (e = 1023 \<and> m = 2 ^ 53) then None
              else Some (sgn q * (of_int m * ulp)))"

text \<open>
  \<^verbatim>\<open>Unmarshal\<close> into an \<^verbatim>\<open>interface{}\<close>: \<^verbatim>\<open>nil\<close>, \<^verbatim>\<open>bool\<close>, \<^verbatim>\<open>float64\<close>,
  \<^verbatim>\<open>string\<close>, \<^verbatim>\<open>[]interface{}\<close> or \<^verbatim>\<open>map[string]interface{}\<close> (a repeated key
  keeps its last value).  \<open>None\<close> stands for a decode that reports an error.
\<close>

fun those_pairs :: "(string \<times> goval option) list \<Rightarrow> (string \<times> goval) list option" where
  "those_pairs [] = Some []"
| "those_pairs ((k, None) # rest) = None"
| "those_pairs ((k, Some v) # rest) = map_option (\<lambda>kvs. (k, v) # kvs) (those_pairs rest)"

fun decode_interface :: "json \<Rightarrow> goval option" where
  "decode_interface JNull = Some GNil"
| "decode_interface (JBool b) = Some (GBool b)"
| "decode_interface (JNum q) = map_option GFloat64 (to_float64 q)"
| "decode_interface (JStr s) = Some (GString s)"
| "decode_interface (JArr xs) = map_option GSlice (those (map decode_interface xs))"
| "decode_interface (JObj kvs) =
     map_option (\<lambda>m. GMap (foldl (\<lambda>m (k, v). AList.update k v m) [] m))
       (those_pairs (map (\<lambda>(k, v). (k, decode_interface v)) kvs))"

text \<open>
  \<^verbatim>\<open>Marshal\<close>: an \<^verbatim>\<open>int64\<close> and a \<^verbatim>\<open>float64\<close> both become a number literal, a
  map becomes an object with its keys sorted, a struct an object with its fields in
  declaration order.
\<close>

fun encode_interface :: "goval \<Rightarrow> json" where
  "encode_interface GNil = JNull"
| "encode_interface (GBool b) = JBool b"
| "encode_interface (GInt64 w) = JNum (of_int (sint w))"
| "encode_interface (GFloat64 q) = JNum q"
| "encode_interface (GString s) = JStr s"
| "encode_interface (GSlice xs) = JArr (map encode_interface xs)"
| "encode_interface (GMap kvs) =
     JObj (sort_key fst (map (\<lambda>(k, v). (k, encode_interface v)) kvs))"
| "encode_interface (GStruct ty kvs) = JObj (map (\<lambda>(k, v). (k, encode_interface v)) kvs)"

text \<open>
  \<open>omitempty\<close> on an \<^verbatim>\<open>interface{}\<close> field drops the field only when the interface
  itself is \<^verbatim>\<open>nil\<close>; on the \<^verbatim>\<open>*MCPError\<close> field, when the pointer is \<^verbatim>\<open>nil\<close>.
\<close>

definition omitempty :: "string \<Rightarrow> goval \<Rightarrow> (string \<times> json) list" where
  "omitempty tag v = (if v = GNil then [] else [(tag, encode_interface v)])"

definition encode_request :: "MCPRequest \<Rightarrow> json" where
  "encode_request req =
     JObj ([(''jsonrpc'', JStr (JSONRPC req)), (''id'', encode_interface (ID req)),
            (''method'', JStr (Method req))] @ omitempty ''params'' (Params req))"

definition encode_error :: "MCPError \<Rightarrow> json" where
  "encode_error e =
     JObj ([(''code'', JNum (of_int (Code e))), (''message'', JStr (Message e))]
           @ omitempty ''data'' (Data e))"

definition encode_response :: "MCPResponse \<Rightarrow> json" where
  "encode_response resp =
     JObj ([(''jsonrpc'', JStr (rJSONRPC resp))] @ omitempty ''id'' (rID resp)
           @ omitempty ''result'' (Result resp)
           @ (case Error resp of None \<Rightarrow> [] | Some e \<Rightarrow> [(''error'', encode_error e)]))"

text \<open>
  Decoding into a struct walks the members of the object in wire order.  A member whose
  key matches no field is skipped; a string field takes a string, ignores
  \<^verbatim>\<open>null\<close> and reports a type error on anything else; the decode reports an error
  at the end if any member did.  \<^verbatim>\<open>null\<close> in place of the object leaves the struct
  at its zero value.
\<close>

definition decode_string :: "json \<Rightarrow> string \<Rightarrow> string option" where
  "decode_string j old = (case j of JStr s \<Rightarrow> Some s | JNull \<Rightarrow> Some old | _ \<Rightarrow> None)"

definition decode_int :: "json \<Rightarrow> int \<Rightarrow> int option" where
  "decode_int j old =
     (case j of
        JNum q \<Rightarrow>
          (if q = of_int \<lfloor>q\<rfloor> \<and> - (2 ^ 63) \<le> \<lfloor>q\<rfloor> \<and> \<lfloor>q\<rfloor> < 2 ^ 63 then Some \<lfloor>q\<rfloor> else None)
      | JNull \<Rightarrow> Some old
      | _ \<Rightarrow> None)"

definition request_member :: "MCPRequest option \<Rightarrow> string \<times> json \<Rightarrow> MCPRequest option" where
  "request_member acc kv =
     (case acc of
        None \<Rightarrow> None
      | Some req \<Rightarrow>
          (case kv of (k, v) \<Rightarrow>
             if fold_eq ''jsonrpc'' k then
               map_option (\<lambda>s. req\<lparr>JSONRPC := s\<rparr>) (decode_string v (JSONRPC req))
             else if fold_eq ''id'' k then
               map_option (\<lambda>x. req\<lparr>ID := x\<rparr>) (decode_interface v)
             else if fold_eq ''method'' k then
               map_option (\<lambda>s. req\<lparr>Method := s\<rparr>) (decode_string v (Method req))
             else if fold_eq ''params'' k then
               map_option (\<lambda>x. req\<lparr>Params := x\<rparr>) (decode_interface v)
             else Some req))"

definition zero_request :: MCPRequest where
  "zero_request = \<lparr>JSONRPC = [], ID = GNil, Method = [], Params = GNil\<rparr>"

definition decode_request :: "json \<Rightarrow> MCPRequest option" where
  "decode_request j =
     (case j of
        JObj kvs \<Rightarrow> foldl request_member (Some zero_request) kvs
      | JNull \<Rightarrow> Some zero_request
      | _ \<Rightarrow> None)"

definition zero_error :: MCPError where
  "zero_error = \<lparr>Code = 0, Message = [], Data = GNil\<rparr>"

definition error_member :: "MCPError option \<Rightarrow> string \<times> json \<Rightarrow> MCPError option" where
  "error_member acc kv =
     (case acc of
        None \<Rightarrow> None
      | Some e \<Rightarrow>
          (case kv of (k, v) \<Rightarrow>
             if fold_eq ''code'' k then
               map_option (\<lambda>c. e\<lparr>Code := c\<rparr>) (decode_int v (Code e))
             else if fold_eq ''message'' k then
               map_option (\<lambda>s. e\<lparr>Message := s\<rparr>) (decode_string v (Message e))
             else if fold_eq ''data'' k then
               map_option (\<lambda>x. e\<lparr>Data := x\<rparr>) (decode_interface v)
             else Some e))"

definition decode_error :: "json \<Rightarrow> MCPError option \<Rightarrow> MCPError option option" where
  "decode_error j old =
     (case j of
        JNull \<Rightarrow> Some None
      | JObj kvs \<Rightarrow>
          map_option Some
            (foldl error_member (Some (case old of None \<Rightarrow> zero_error | Some e \<Rightarrow> e)) kvs)
      | _ \<Rightarrow> None)"

definition response_member :: "MCPResponse option \<Rightarrow> string \<times> json \<Rightarrow> MCPResponse option" where
  "response_member acc kv =
     (case acc of
        None \<Rightarrow> None
      | Some resp \<Rightarrow>
          (case kv of (k, v) \<Rightarrow>
             if fold_eq ''jsonrpc'' k then
               map_option (\<lambda>s. resp\<lparr>rJSONRPC := s\<rparr>) (decode_string v (rJSONRPC resp))
             else if fold_eq ''id'' k then
               map_option (\<lambda>x. resp\<lparr>rID := x\<rparr>) (decode_interface v)
             else if fold_eq ''result'' k then
               map_option (\<lambda>x. resp\<lparr>Result := x\<rparr>) (decode_interface v)
             else if fold_eq ''error'' k then
               map_option (\<lambda>e. resp\<lparr>Error := e\<rparr>) (decode_error v (Error resp))
             else Some resp))"

definition zero_response :: MCPResponse where
  "zero_response = \<lparr>rJSONRPC = [], rID = GNil, Result = GNil, Error = None\<rparr>"

definition decode_response :: "json \<Rightarrow> MCPResponse option" where
  "decode_response j =
     (case j of
        JObj kvs \<Rightarrow> foldl response_member (Some zero_response) kvs
      | JNull \<Rightarrow> Some zero_response
      | _ \<Rightarrow> None)"

section \<open>The per-connection loop (server.go, handleConnection)\<close>

text \<open>
  What the peer puts on the stream is a list of items, each a JSON value or something
  that is not one; the end of the list is the end of the stream.  The second argument
  is the number of writes the connection still accepts before \<^verbatim>\<open>Encode\<close> fails.
  The result is what was written, the state left behind and why the loop ended.
\<close>

datatype wire_in = Malformed | Value json

datatype exit_reason = StreamEnded | DecodeFailed | WriteFailed | Panicked

fun handleConnection :: "sstate \<Rightarrow> nat \<Rightarrow> wire_in list \<Rightarrow> json list \<times> sstate \<times> exit_reason" where
  "handleConnection st w [] = ([], st, StreamEnded)"
| "handleConnection st w (Malformed # rest) = ([], st, DecodeFailed)"
| "handleConnection st w (Value j # rest) =
     (case decode_request j of
        None \<Rightarrow> ([], st, DecodeFailed)
      | Some req \<Rightarrow>
          (case handleRequest st req of
             (Panics, st') \<Rightarrow> ([], st', Panicked)
           | (Returns resp, st') \<Rightarrow>
               (case w of
                  0 \<Rightarrow> ([], st', WriteFailed)
                | Suc w' \<Rightarrow>
                    (case handleConnection st' w' rest of
                       (out, st'', why) \<Rightarrow> (encode_response resp # out, st'', why)))))"

section \<open>The client (client.go)\<close>

text \<open>
  \<^verbatim>\<open>Client.responses\<close> is a \<^verbatim>\<open>map[interface{}]chan MCPResponse\<close>.  Two keys of
  such a map are the same key when their dynamic types and their values are equal,
  which is equality of \<open>goval\<close>.  Indexing, assigning or deleting with a key whose
  dynamic type cannot be hashed (a slice, a map, or a struct holding one) is a run-time
  panic, also when the map is empty.
\<close>

fun hashable :: "goval \<Rightarrow> bool" where
  "hashable GNil = True"
| "hashable (GBool b) = True"
| "hashable (GInt64 w) = True"
| "hashable (GFloat64 q) = True"
| "hashable (GString s) = True"
| "hashable (GSlice xs) = False"
| "hashable (GMap kvs) = False"
| "hashable (GStruct ty kvs) = list_all (\<lambda>kv. hashable (snd kv)) kvs"

text \<open>
  The client is used by several goroutines at once: any number of callers inside
  \<^verbatim>\<open>sendRequest\<close>, and the one read loop \<^verbatim>\<open>readResponses\<close>.  The model is a
  transition system whose steps are the pieces of those two functions that run without
  interference: everything done while holding \<^verbatim>\<open>c.mu\<close>, one \<^verbatim>\<open>Encode\<close>, one
  channel operation.  A caller \<open>i\<close> is at one of the following places in
  \<^verbatim>\<open>sendRequest\<close>:
  \<^item> \<open>Start\<close>: entering with its request (line 160);
  \<^item> \<open>Registered\<close>: the channel is made and stored under \<^verbatim>\<open>req.ID\<close>, the deferred
    delete is armed (lines 161-171);
  \<^item> \<open>Waiting\<close>: the request is written, the caller blocks in \<^verbatim>\<open>select\<close>
    (lines 173-177);
  \<^item> \<open>Unwinding\<close>: the result is decided, the deferred function has not run yet;
  \<^item> \<open>Finished\<close>: the deferred function has deleted the entry and the call has
    returned.
  A result is \<open>Inl\<close> an error text or \<open>Inr\<close> a response.
\<close>

datatype call =
    Start MCPRequest
  | Registered MCPRequest nat
  | Waiting MCPRequest nat
  | Unwinding MCPRequest "string + MCPResponse"
  | Finished MCPRequest "string + MCPResponse"

text \<open>
  The log of what has happened, oldest first.  It is not read by any step; it is there
  so that properties of the order and number of the steps can be stated.
\<close>

datatype event =
    Inserted nat
  | Written nat
  | Delivered nat MCPResponse
  | Received nat
  | Deleted nat

text \<open>
  The state: the fields of \<^verbatim>\<open>Client\<close> that the two functions use, the buffer of
  every channel made so far (channels are numbered in the order they are made), the
  callers, the requests written to the connection, whether the read loop is still
  running, and whether a goroutine has panicked, which ends the process.
\<close>

record Client =
  requestID :: "64 word"
  responses :: "goval \<rightharpoonup> nat"
  chans :: "nat \<Rightarrow> MCPResponse list"
  nchans :: nat
  calls :: "nat \<rightharpoonup> call"
  sent :: "json list"
  reading :: bool
  crashed :: bool
  trace :: "event list"

definition NewMCPClient :: Client where
  "NewMCPClient =
     \<lparr>requestID = 0, responses = Map.empty, chans = (\<lambda>ch. []), nchans = 0,
      calls = Map.empty, sent = [], reading = True, crashed = False, trace = []\<rparr>"

definition nextRequestID :: "Client \<Rightarrow> 64 word \<times> Client" where
  "nextRequestID c = (requestID c + 1, c\<lparr>requestID := requestID c + 1\<rparr>)"

text \<open>
  One iteration of \<^verbatim>\<open>readResponses\<close> after a successful decode (lines 192-199):
  look the id up and, if a channel is registered under it, send without blocking.  The
  channel has capacity 1, so the send goes through exactly when its buffer is empty.
\<close>

definition deliver :: "MCPResponse \<Rightarrow> Client \<Rightarrow> Client" where
  "deliver resp c =
     (if \<not> hashable (rID resp) then c\<lparr>crashed := True\<rparr>
      else case responses c (rID resp) of
             None \<Rightarrow> c
           | Some respChan \<Rightarrow>
               if length (chans c respChan) < 1
               then c\<lparr>chans := (chans c)(respChan := chans c respChan @ [resp]),
                      trace := trace c @ [Delivered respChan resp]\<rparr>
               else c)"

text \<open>
  The steps.  \<open>Invoke i m p\<close> is the start of one of the public calls
  (\<^verbatim>\<open>Initialize\<close>, \<^verbatim>\<open>ListTools\<close>, \<^verbatim>\<open>CallTool\<close>): it draws the id from
  \<^verbatim>\<open>nextRequestID\<close> and enters \<^verbatim>\<open>sendRequest\<close>.  These three are the only
  callers of \<^verbatim>\<open>sendRequest\<close>, which is not exported.  \<open>Store i\<close> makes the
  channel and puts it into the table.  \<open>Encode i err\<close> is the write of the request,
  with the error it fails with, if any.  \<open>Timeout i\<close> is the timer of the
  \<^verbatim>\<open>select\<close> firing; the model lets it fire at any moment.  \<open>Read r\<close> is one
  iteration of the read loop, \<open>r\<close> being what \<^verbatim>\<open>Decode\<close> produced: a
  response, or \<open>None\<close> for an error or the end of the stream.  A step that the
  state does not allow is \<open>None\<close>.
\<close>

datatype action =
    Invoke nat string goval
  | Store nat
  | Encode nat "string option"
  | Receive nat
  | Timeout nat
  | Return nat
  | Read "MCPResponse option"

fun step :: "action \<Rightarrow> Client \<Rightarrow> Client option" where
  "step (Invoke i m p) c =
     (if crashed c \<or> calls c i \<noteq> None then None
      else case nextRequestID c of
             (n, c') \<Rightarrow>
               Some (c'\<lparr>calls := (calls c')(i \<mapsto>
                  Start \<lparr>JSONRPC = ''2.0'', ID = GInt64 n, Method = m, Params = p\<rparr>)\<rparr>))"
| "step (Store i) c =
     (if crashed c then None
      else case calls c i of
             Some (Start req) \<Rightarrow>
               if \<not> hashable (ID req) then Some (c\<lparr>crashed := True\<rparr>)
               else Some (c\<lparr>responses := (responses c)(ID req \<mapsto> nchans c),
                            chans := (chans c)(nchans c := []),
                            nchans := Suc (nchans c),
                            calls := (calls c)(i \<mapsto> Registered req (nchans c)),
                            trace := trace c @ [Inserted i]\<rparr>)
           | _ \<Rightarrow> None)"
| "step (Encode i err) c =
     (if crashed c then None
      else case calls c i of
             Some (Registered req respChan) \<Rightarrow>
               (case err of
                  None \<Rightarrow>
                    Some (c\<lparr>sent := sent c @ [encode_request req],
                             calls := (calls c)(i \<mapsto> Waiting req respChan),
                             trace := trace c @ [Written i]\<rparr>)
                | Some e \<Rightarrow>
                    Some (c\<lparr>calls := (calls c)(i \<mapsto>
                       Unwinding req (Inl (''failed to send request: '' @ e)))\<rparr>))
           | _ \<Rightarrow> None)"
| "step (Receive i) c =
     (if crashed c then None
      else case calls c i of
             Some (Waiting req respChan) \<Rightarrow>
               (case chans c respChan of
                  [] \<Rightarrow> None
                | resp # rest \<Rightarrow>
                    Some (c\<lparr>chans := (chans c)(respChan := rest),
                             calls := (calls c)(i \<mapsto> Unwinding req (Inr resp)),
                             trace := trace c @ [Received i]\<rparr>))
           | _ \<Rightarrow> None)"
| "step (Timeout i) c =
     (if crashed c then None
      else case calls c i of
             Some (Waiting req respChan) \<Rightarrow>
               Some (c\<lparr>calls := (calls c)(i \<mapsto> Unwinding req (Inl ''request timeout''))\<rparr>)
           | _ \<Rightarrow> None)"
| "step (Return i) c =
     (if crashed c then None
      else case calls c i of
             Some (Unwinding req r) \<Rightarrow>
               if \<not> hashable (ID req) then Some (c\<lparr>crashed := True\<rparr>)
               else Some (c\<lparr>responses := (responses c)(ID req := None),
                            calls := (calls c)(i \<mapsto> Finished req r),
                            trace := trace c @ [Deleted i]\<rparr>)
           | _ \<Rightarrow> None)"
| "step (Read r) c =
     (if crashed c \<or> \<not> reading c then None
      else case r of
             None \<Rightarrow> Some (c\<lparr>reading := False\<rparr>)
           | Some resp \<Rightarrow> Some (deliver resp c))"

fun run :: "action list \<Rightarrow> Client \<Rightarrow> Client option" where
  "run [] c = Some c"
| "run (a # as) c = (case step a c of None \<Rightarrow> None | Some c' \<Rightarrow> run as c')"







subsection \<open>What is observed of a client state\<close>

definition slot :: "nat \<Rightarrow> Client \<Rightarrow> MCPResponse list" where
  "slot ch c = chans c ch"

definition entry :: "goval \<Rightarrow> Client \<Rightarrow> nat option" where
  "entry k c = responses c k"

definition caller :: "nat \<Rightarrow> Client \<Rightarrow> call option" where
  "caller i c = calls c i"








text \<open>
  The runs the program can make.  A caller enters \<^verbatim>\<open>sendRequest\<close> only through
  \<open>Invoke\<close>, so every request id is an \<^verbatim>\<open>int64\<close>; and a response that the read
  loop handles has come out of the decoder, which never produces an \<^verbatim>\<open>int64\<close> id.
\<close>

fun is_int64 :: "goval \<Rightarrow> bool" where
  "is_int64 (GInt64 w) = True"
| "is_int64 other = False"


fun from_wire :: "action \<Rightarrow> bool" where
  "from_wire (Read (Some resp)) = (\<not> is_int64 (rID resp))"
| "from_wire other = True"



section \<open>Example data\<close>

text \<open>
  A registry with one tool that echoes its argument \<open>x\<close>, a server built with the
  constructors of server.go, and a file system with one file.  The resource
  \<^verbatim>\<open>/gone.txt\<close> is registered but its file does not exist.
\<close>

definition echo_tool :: Tool where
  "echo_tool =
     \<lparr>tName = ''echo'', tDescription = ''Echo the argument x'',
      tParameters = GMap [(''type'', GString ''object'')],
      tExecute = (\<lambda>args files.
        (case map_of args ''x'' of
           Some (GString s) \<Rightarrow> ToolResult s
         | _ \<Rightarrow> ToolError ''x is required'', files))\<rparr>"

definition unnamed_tool :: Tool where
  "unnamed_tool =
     \<lparr>tName = [], tDescription = ''A tool whose Name() is the empty string'',
      tParameters = GNil,
      tExecute = (\<lambda>args files. (ToolResult ''ok'', files))\<rparr>"

definition example_files :: fs where
  "example_files path =
     (if path = ''/notes.txt'' then Inr ''hello''
      else Inl (''open '' @ path @ '': no such file or directory''))"

definition example_server :: Server where
  "example_server =
     RegisterResource ''/gone.txt'' ''gone'' ''a file that was removed'' ''text/plain'' []
       (RegisterResource ''/logo.png'' ''logo'' ''an image'' ''image/png'' []
          (RegisterResource ''/notes.txt'' ''notes'' ''a text file'' ''text/plain'' []
             (NewMCPServer ''claude-go'' ''0.1.0'' (Register echo_tool []))))"

definition example_state :: sstate where
  "example_state = \<lparr>srv = example_server, files = example_files\<rparr>"

definition unnamed_state :: sstate where
  "unnamed_state =
     \<lparr>srv = NewMCPServer ''claude-go'' ''0.1.0'' (Register unnamed_tool []),
      files = example_files\<rparr>"

definition request :: "goval \<Rightarrow> string \<Rightarrow> goval \<Rightarrow> MCPRequest" where
  "request i m p = \<lparr>JSONRPC = ''2.0'', ID = i, Method = m, Params = p\<rparr>"


text \<open>
  A server with a web page registered as \<^verbatim>\<open>text/html\<close> and a binary file registered
  as \<^verbatim>\<open>application/octet-stream\<close>, both present on the file system; and one reading
  of ``text-like'': a mime type that starts with \<^verbatim>\<open>text/\<close>.
\<close>

definition mime_files :: fs where
  "mime_files path =
     (if path = ''/page.html'' then Inr ''<p>hi</p>''
      else if path = ''/blob.bin'' then Inr [CHR 0x00, CHR 0xFF, CHR 0x10]
      else Inl (''open '' @ path @ '': no such file or directory''))"

definition mime_state :: sstate where
  "mime_state =
     \<lparr>srv = RegisterResource ''/blob.bin'' ''blob'' ''a binary file''
              ''application/octet-stream'' []
             (RegisterResource ''/page.html'' ''page'' ''a web page'' ''text/html'' []
                (NewMCPServer ''claude-go'' ''0.1.0'' (Register echo_tool []))),
      files = mime_files\<rparr>"

definition text_prefix :: "string \<Rightarrow> bool" where
  "text_prefix m = (take 5 m = ''text/'')"


text \<open>
  Client-side examples: the request \<^verbatim>\<open>ListTools\<close> sends first on a new client, what
  the example server writes back for it, and a response whose id is an array.
\<close>

definition list_tools_sent :: "action list" where
  "list_tools_sent = [Invoke 0 ''tools/list'' GNil, Store 0, Encode 0 None]"

definition list_tools_reply :: json where
  "list_tools_reply =
     encode_response (result_response (GFloat64 1)
       (GMap [(''tools'', GSlice [MCPTool_val (''echo'', ''Echo the argument x'',
                                     GMap [(''type'', GString ''object'')])])]))"

definition reply_with_array_id :: json where
  "reply_with_array_id =
     JObj [(''jsonrpc'', JStr ''2.0''), (''id'', JArr [JNum 1]), (''result'', JStr ''x'')]"




section \<open>The server: what dispatch returns\<close>

lemma handleRequest_srv: "srv (snd (handleRequest st req)) = srv st"
  by (simp add: handleRequest_def handleInitialize_def handleListTools_def handleCallTool_def
      handleListResources_def handleReadResource_def Let_def
      split: prod.splits tool_outcome.splits option.splits sum.splits)

lemma handleConnection_srv:
  "handleConnection st w ins = (out, st', why) \<Longrightarrow> srv st' = srv st"
proof (induction st w ins arbitrary: out st' why rule: handleConnection.induct)
  case (1 st w)
  then show ?case by simp
next
  case (2 st w rest)
  then show ?case by simp
next
  case (3 st w j rest)
  show ?case
  proof (cases "decode_request j")
    case None
    with "3.prems" show ?thesis by simp
  next
    case (Some req)
    obtain r st1 where hr: "handleRequest st req = (r, st1)"
      by (cases "handleRequest st req")
    have s1: "srv st1 = srv st"
      using handleRequest_srv [of st req] hr by simp
    show ?thesis
    proof (cases r)
      case Panics
      with "3.prems" Some hr s1 show ?thesis by simp
    next
      case (Returns resp)
      show ?thesis
      proof (cases w)
        case 0
        with "3.prems" Some hr s1 Returns show ?thesis by simp
      next
        case (Suc w')
        obtain out2 st2 why2 where hc: "handleConnection st1 w' rest = (out2, st2, why2)"
          by (cases "handleConnection st1 w' rest")
        have "srv st2 = srv st1"
          using "3.IH" [OF Some hr [symmetric] Returns Suc hc] .
        with "3.prems" Some hr s1 Returns Suc hc show ?thesis by simp
      qed
    qed
  qed
qed

text \<open>
  C5.  A \<^verbatim>\<open>tools/call\<close> whose decoded \<^verbatim>\<open>params.name\<close> is not a key of the tool
  registry is answered, without a panic and without touching the state, by an error
  response with code -32602 whose message is \<^verbatim>\<open>Tool execution failed: \<close> followed
  by the registry's own failure message \<^verbatim>\<open>tool <name> not found\<close>.
\<close>

theorem call_unknown_tool:
  assumes "Method req = ''tools/call''"
    and "map_of (tools (srv st)) (ctName (CallToolParams_of (Params req))) = None"
  shows "fst (Execute (tools (srv st)) (ctName (CallToolParams_of (Params req)))
                (ctArguments (CallToolParams_of (Params req))) (files st))
           = ToolError (''tool '' @ ctName (CallToolParams_of (Params req)) @ '' not found'')
         \<and> handleRequest st req =
           (Returns (error_response (ID req) (- 32602)
              (''Tool execution failed: '' @
               ''tool '' @ ctName (CallToolParams_of (Params req)) @ '' not found'')), st)"
  using assms by (simp add: handleRequest_def handleCallTool_def Execute_def)

lemma example_tools: "tools (srv example_state) = [(''echo'', echo_tool)]"
  by (simp add: example_state_def example_server_def RegisterResource_def NewMCPServer_def
      Register_def echo_tool_def)

lemma fold_eq_name [simp]: "fold_eq ''name'' ''name''"
  by (simp add: fold_eq_def)

lemma fold_eq_examples:
  "fold_eq ''jsonrpc'' ''JsonRPC''
   \<and> fold_eq ''jsonrpc'' (''j'' @ [CHR 0xC5, CHR 0xBF] @ ''onrpc'')
   \<and> fold_eq ''arguments'' (''argument'' @ [CHR 0xC5, CHR 0xBF])
   \<and> fold_eq ''code'' [CHR ''c'', CHR ''O'', CHR ''d'', CHR ''E'']
   \<and> \<not> fold_eq ''name'' ''names''"
  by code_simp

lemma sort_key_single [simp]: "sort_key f [x] = [x]"
  by simp

theorem call_unknown_tool_witness:
  "Method (request (GFloat64 3) ''tools/call'' (GMap [(''name'', GString ''nope'')])) = ''tools/call''
   \<and> map_of (tools (srv example_state))
        (ctName (CallToolParams_of (Params (request (GFloat64 3) ''tools/call''
           (GMap [(''name'', GString ''nope'')]))))) = None
   \<and> handleRequest example_state
        (request (GFloat64 3) ''tools/call'' (GMap [(''name'', GString ''nope'')]))
      = (Returns \<lparr>rJSONRPC = ''2.0'', rID = GFloat64 3, Result = GNil,
                  Error = Some \<lparr>Code = - 32602,
                     Message = ''Tool execution failed: tool nope not found'',
                     Data = GNil\<rparr>\<rparr>, example_state)"
proof -
  let ?req = "request (GFloat64 3) ''tools/call'' (GMap [(''name'', GString ''nope'')])"
  have n: "ctName (CallToolParams_of (Params ?req)) = ''nope''"
    by (simp add: request_def CallToolParams_of_def unmarshal_CallToolParams_def
        store_string_def)
  have m: "Method ?req = ''tools/call''"
    by (simp add: request_def)
  have a: "map_of (tools (srv example_state)) (ctName (CallToolParams_of (Params ?req))) = None"
    by (simp add: n example_tools)
  show ?thesis
    using call_unknown_tool [OF m a] m a
    by (simp add: n error_response_def) (simp add: request_def)
qed

text \<open>
  C7.  For a request with one of the five recognized methods, the response that
  dispatch returns carries the request's id.  Dispatch returns a response in every
  case but one: a \<^verbatim>\<open>tools/call\<close> whose tool panics inside \<^verbatim>\<open>Execute\<close>.
\<close>

theorem response_id:
  assumes "recognized (Method req)"
  shows "case fst (handleRequest st req) of
           Returns resp \<Rightarrow> rID resp = ID req
         | Panics \<Rightarrow>
             Method req = ''tools/call'' \<and>
             fst (Execute (tools (srv st)) (ctName (CallToolParams_of (Params req)))
                    (ctArguments (CallToolParams_of (Params req))) (files st)) = ToolPanic"
  using assms
  by (auto simp add: recognized_def handleRequest_def handleInitialize_def handleListTools_def
      handleCallTool_def handleListResources_def handleReadResource_def Let_def
      error_response_def result_response_def
      split: prod.splits tool_outcome.splits option.splits sum.splits)

theorem response_id_witness:
  "recognized (Method (request (GString ''a-1'') ''resources/list'' GNil))
   \<and> (case fst (handleRequest example_state (request (GString ''a-1'') ''resources/list'' GNil)) of
         Returns resp \<Rightarrow> rID resp = GString ''a-1''
       | Panics \<Rightarrow> False)"
proof -
  let ?req = "request (GString ''a-1'') ''resources/list'' GNil"
  have r: "recognized (Method ?req)"
    by (simp add: request_def recognized_def)
  have i: "ID ?req = GString ''a-1''"
    by (simp add: request_def)
  have m: "Method ?req \<noteq> ''tools/call''"
    by (simp add: request_def)
  show ?thesis
    using response_id [OF r, of example_state] r i m
    by (simp split: go.splits)
qed

text \<open>
  C6.  \<^verbatim>\<open>initialize\<close> always succeeds, whatever its params and id: the result holds
  the protocol version \<^verbatim>\<open>2024-11-05\<close>, the server's capabilities and its name and
  version, and the state after the call is the state before it.  Hence a second call
  gives the same answer, and so does a call after any traffic on a connection, since
  no request changes the server object.
\<close>

theorem initialize_idempotent:
  assumes "Method req = ''initialize''"
  shows "handleRequest st req =
           (Returns \<lparr>rJSONRPC = ''2.0'', rID = ID req,
              Result = GStruct ''InitializeResult''
                [(''protocolVersion'', GString ''2024-11-05''),
                 (''capabilities'',
                    GStruct ''ServerCapabilities''
                      [(''tools'', GBool (capTools (capabilities (srv st)))),
                       (''resources'', GBool (capResources (capabilities (srv st)))),
                       (''prompts'', GBool (capPrompts (capabilities (srv st))))]),
                 (''serverInfo'',
                    GStruct ''ServerInfo''
                      [(''name'', GString (name (srv st))),
                       (''version'', GString (version (srv st)))])],
              Error = None\<rparr>, st)
         \<and> handleRequest (snd (handleRequest st req)) req = handleRequest st req
         \<and> fst (handleRequest st (req\<lparr>Params := p\<rparr>)) = fst (handleRequest st req)
         \<and> fst (handleRequest (fst (snd (handleConnection st w ins))) req)
             = fst (handleRequest st req)"
proof -
  have s: "srv (fst (snd (handleConnection st w ins))) = srv st"
    using handleConnection_srv [of st w ins] by (cases "handleConnection st w ins") simp
  show ?thesis
    using assms s
    by (simp add: handleRequest_def handleInitialize_def result_response_def
        InitializeResult_val_def)
qed

theorem initialize_idempotent_witness:
  "Method (request (GFloat64 1) ''initialize'' GNil) = ''initialize''
   \<and> fst (handleRequest example_state (request (GFloat64 1) ''initialize'' GNil)) =
       Returns \<lparr>rJSONRPC = ''2.0'', rID = GFloat64 1,
          Result = GStruct ''InitializeResult''
            [(''protocolVersion'', GString ''2024-11-05''),
             (''capabilities'',
                GStruct ''ServerCapabilities''
                  [(''tools'', GBool True), (''resources'', GBool True),
                   (''prompts'', GBool False)]),
             (''serverInfo'',
                GStruct ''ServerInfo''
                  [(''name'', GString ''claude-go''), (''version'', GString ''0.1.0'')])],
          Error = None\<rparr>
   \<and> snd (handleRequest example_state (request (GFloat64 1) ''initialize'' GNil)) = example_state"
proof -
  have m: "Method (request (GFloat64 1) ''initialize'' GNil) = ''initialize''"
    by (simp add: request_def)
  have i: "ID (request (GFloat64 1) ''initialize'' GNil) = GFloat64 1"
    by (simp add: request_def)
  have c: "capabilities (srv example_state)
             = \<lparr>capTools = True, capResources = True, capPrompts = False\<rparr>"
    "name (srv example_state) = ''claude-go''" "version (srv example_state) = ''0.1.0''"
    by (simp_all add: example_state_def example_server_def RegisterResource_def NewMCPServer_def)
  show ?thesis
    using initialize_idempotent [OF m, of example_state] m
    by (simp add: i c)
qed

text \<open>
  C9.  A request whose method is none of the five is answered by an error response
  with code -32601 and message \<^verbatim>\<open>Method not found\<close>; the state is unchanged, and
  when that response has been written the connection loop goes on with the rest of
  the stream exactly as it would have without the request.
\<close>

theorem unknown_method:
  assumes "\<not> recognized (Method req)"
  shows "handleRequest st req =
           (Returns (error_response (ID req) (- 32601) ''Method not found''), st)
         \<and> (decode_request j = Some req \<longrightarrow>
              handleConnection st (Suc w) (Value j # rest) =
                (case handleConnection st w rest of
                   (out, st', why) \<Rightarrow>
                     (encode_response (error_response (ID req) (- 32601) ''Method not found'')
                        # out, st', why)))"
  using assms
  by (simp add: recognized_def handleRequest_def)


lemma decode_ping:
  "decode_request (JObj [(''jsonrpc'', JStr ''2.0''), (''id'', JNum 5), (''method'', JStr ''ping'')])
     = Some (request (GFloat64 5) ''ping'' GNil)"
  by code_simp

lemma decode_initialize:
  "decode_request (JObj [(''jsonrpc'', JStr ''2.0''), (''id'', JNum 6),
       (''method'', JStr ''initialize'')])
     = Some (request (GFloat64 6) ''initialize'' GNil)"
  by code_simp

lemma example_initialize:
  "handleRequest example_state (request (GFloat64 6) ''initialize'' GNil)
     = (Returns (result_response (GFloat64 6) (InitializeResult_val example_server)),
        example_state)"
  by (simp add: handleRequest_def handleInitialize_def request_def example_state_def)

theorem unknown_method_witness:
  "\<not> recognized (Method (request (GFloat64 5) ''ping'' GNil))
   \<and> handleConnection example_state 2
        [Value (JObj [(''jsonrpc'', JStr ''2.0''), (''id'', JNum 5), (''method'', JStr ''ping'')]),
         Value (JObj [(''jsonrpc'', JStr ''2.0''), (''id'', JNum 6),
                      (''method'', JStr ''initialize'')])]
      = ([encode_response (error_response (GFloat64 5) (- 32601) ''Method not found''),
          encode_response (result_response (GFloat64 6) (InitializeResult_val example_server))],
         example_state, StreamEnded)"
proof -
  let ?req = "request (GFloat64 5) ''ping'' GNil"
  have u: "\<not> recognized (Method ?req)"
    by (simp add: request_def recognized_def)
  have i: "ID ?req = GFloat64 5"
    by (simp add: request_def)
  show ?thesis
    using unknown_method [OF u, where st = example_state and w = "Suc 0"
        and j = "JObj [(''jsonrpc'', JStr ''2.0''), (''id'', JNum 5), (''method'', JStr ''ping'')]"
        and rest = "[Value (JObj [(''jsonrpc'', JStr ''2.0''), (''id'', JNum 6),
                       (''method'', JStr ''initialize'')])]"] u
    by (simp add: decode_ping decode_initialize example_initialize i numeral_2_eq_2)
qed

text \<open>
  C3, as far as the code bears it out.  \<^verbatim>\<open>resources/read\<close> looks
  \<^verbatim>\<open>params.uri\<close> up in the resource table.  Not registered: error -32602
  \<^verbatim>\<open>Resource not found\<close>.  Registered with mime type \<^verbatim>\<open>text/plain\<close>: the file at
  the resource's uri is read; if that succeeds the result is
  \<^verbatim>\<open>{contents:[{uri, mimeType, text}]}\<close> with the bytes of the file as text, and if
  it fails the response is error -32602 \<^verbatim>\<open>Failed to read resource: \<close> followed by
  the error of the read.  Registered with a mime type that is not text-like and is not
  \<^verbatim>\<open>application/octet-stream\<close>: error -32602 \<^verbatim>\<open>Unsupported resource type\<close>.
  The state is unchanged in every case.  ``Text-like'' is any property of mime types
  that \<^verbatim>\<open>text/plain\<close> has.  Nothing is said about the other text-like types nor about
  \<^verbatim>\<open>application/octet-stream\<close>.
\<close>

theorem read_resource:
  assumes "Method req = ''resources/read''" and "text_like ''text/plain''"
  shows "(map_of (resources (srv st)) (ReadResourceParams_of (Params req)) = None \<longrightarrow>
            handleRequest st req =
              (Returns (error_response (ID req) (- 32602) ''Resource not found''), st))
       \<and> (\<forall>r. map_of (resources (srv st)) (ReadResourceParams_of (Params req)) = Some r \<longrightarrow>
            (MimeType r = ''text/plain'' \<longrightarrow>
               (case os_ReadFile (files st) (URI r) of
                  Inr content \<Rightarrow>
                    handleRequest st req =
                      (Returns (result_response (ID req)
                         (GMap [(''contents'',
                            GSlice [GMap [(''uri'', GString (URI r)),
                                          (''mimeType'', GString (MimeType r)),
                                          (''text'', GString content)]])])), st)
                | Inl err \<Rightarrow>
                    handleRequest st req =
                      (Returns (error_response (ID req) (- 32602)
                         (''Failed to read resource: '' @ err)), st)))
          \<and> (\<not> text_like (MimeType r) \<and> MimeType r \<noteq> ''application/octet-stream'' \<longrightarrow>
                handleRequest st req =
                  (Returns (error_response (ID req) (- 32602) ''Unsupported resource type''),
                   st)))"
  using assms
  by (auto simp add: handleRequest_def handleReadResource_def readable_mime_def contents_val_def
      split: sum.splits)

lemma example_resources:
  "map_of (resources (srv example_state)) ''/notes.txt''
     = Some \<lparr>URI = ''/notes.txt'', Name = ''notes'', Description = ''a text file'',
             MimeType = ''text/plain'', Metadata = []\<rparr>"
  "map_of (resources (srv example_state)) ''/gone.txt''
     = Some \<lparr>URI = ''/gone.txt'', Name = ''gone'', Description = ''a file that was removed'',
             MimeType = ''text/plain'', Metadata = []\<rparr>"
  "map_of (resources (srv example_state)) ''/logo.png''
     = Some \<lparr>URI = ''/logo.png'', Name = ''logo'', Description = ''an image'',
             MimeType = ''image/png'', Metadata = []\<rparr>"
  "map_of (resources (srv example_state)) ''/nowhere'' = None"
  by (simp_all add: example_state_def example_server_def RegisterResource_def NewMCPServer_def)

lemma fold_eq_uri [simp]: "fold_eq ''uri'' ''uri''"
  by (simp add: fold_eq_def)

lemma uri_param:
  "ReadResourceParams_of (Params (request i ''resources/read'' (GMap [(''uri'', GString u)]))) = u"
  by (simp add: request_def ReadResourceParams_of_def unmarshal_ReadResourceParams_def
      store_string_def)

theorem read_resource_witness:
  "Method (request (GFloat64 2) ''resources/read'' (GMap [(''uri'', GString ''/notes.txt'')]))
     = ''resources/read''
   \<and> text_prefix ''text/plain''
   \<and> handleRequest example_state
        (request (GFloat64 2) ''resources/read'' (GMap [(''uri'', GString ''/notes.txt'')]))
      = (Returns (result_response (GFloat64 2)
           (GMap [(''contents'',
              GSlice [GMap [(''uri'', GString ''/notes.txt''),
                            (''mimeType'', GString ''text/plain''),
                            (''text'', GString ''hello'')]])])), example_state)
   \<and> \<not> text_prefix ''image/png''
   \<and> handleRequest example_state
        (request (GFloat64 2) ''resources/read'' (GMap [(''uri'', GString ''/logo.png'')]))
      = (Returns (error_response (GFloat64 2) (- 32602) ''Unsupported resource type''),
         example_state)
   \<and> handleRequest example_state
        (request (GFloat64 2) ''resources/read'' (GMap [(''uri'', GString ''/nowhere'')]))
      = (Returns (error_response (GFloat64 2) (- 32602) ''Resource not found''),
         example_state)"
proof -
  have m: "\<And>u. Method (request (GFloat64 2) ''resources/read'' (GMap [(''uri'', GString u)]))
             = ''resources/read''"
    by (simp add: request_def)
  have i: "\<And>u. ID (request (GFloat64 2) ''resources/read'' (GMap [(''uri'', GString u)]))
             = GFloat64 2"
    by (simp add: request_def)
  have f: "os_ReadFile (files example_state) ''/notes.txt'' = Inr ''hello''"
    by (simp add: os_ReadFile_def example_state_def example_files_def)
  have t: "text_prefix ''text/plain''" and n: "\<not> text_prefix ''image/png''"
    by (simp_all add: text_prefix_def)
  show ?thesis
    using read_resource [where text_like = text_prefix and st = example_state,
        OF m [of "''/notes.txt''"] t]
      read_resource [where text_like = text_prefix and st = example_state,
        OF m [of "''/logo.png''"] t]
      read_resource [where text_like = text_prefix and st = example_state,
        OF m [of "''/nowhere''"] t] t n
    by (simp add: m i f uri_param example_resources)
qed

lemma mime_resources:
  "map_of (resources (srv mime_state)) ''/page.html''
     = Some \<lparr>URI = ''/page.html'', Name = ''page'', Description = ''a web page'',
             MimeType = ''text/html'', Metadata = []\<rparr>"
  "map_of (resources (srv mime_state)) ''/blob.bin''
     = Some \<lparr>URI = ''/blob.bin'', Name = ''blob'', Description = ''a binary file'',
             MimeType = ''application/octet-stream'', Metadata = []\<rparr>"
  by (simp_all add: mime_state_def RegisterResource_def NewMCPServer_def)

text \<open>
  The claim as the specification words it fails in three places.  A registered
  \<^verbatim>\<open>text/plain\<close> resource whose file cannot be read is answered by an error, not
  by contents.  A registered \<^verbatim>\<open>text/html\<close> resource whose file is there is refused
  as \<^verbatim>\<open>Unsupported resource type\<close>.  A registered
  \<^verbatim>\<open>application/octet-stream\<close> resource is not refused: its bytes are returned as
  text.
\<close>

theorem read_resource_counterexample:
  "map_of (resources (srv example_state)) ''/gone.txt''
     = Some \<lparr>URI = ''/gone.txt'', Name = ''gone'', Description = ''a file that was removed'',
             MimeType = ''text/plain'', Metadata = []\<rparr>
   \<and> fst (handleRequest example_state
        (request (GFloat64 2) ''resources/read'' (GMap [(''uri'', GString ''/gone.txt'')])))
      = Returns \<lparr>rJSONRPC = ''2.0'', rID = GFloat64 2, Result = GNil,
          Error = Some \<lparr>Code = - 32602,
            Message = ''Failed to read resource: open /gone.txt: no such file or directory'',
            Data = GNil\<rparr>\<rparr>
   \<and> os_ReadFile (files mime_state) ''/page.html'' = Inr ''<p>hi</p>''
   \<and> fst (handleRequest mime_state
        (request (GFloat64 2) ''resources/read'' (GMap [(''uri'', GString ''/page.html'')])))
      = Returns \<lparr>rJSONRPC = ''2.0'', rID = GFloat64 2, Result = GNil,
          Error = Some \<lparr>Code = - 32602, Message = ''Unsupported resource type'',
                        Data = GNil\<rparr>\<rparr>
   \<and> fst (handleRequest mime_state
        (request (GFloat64 2) ''resources/read'' (GMap [(''uri'', GString ''/blob.bin'')])))
      = Returns \<lparr>rJSONRPC = ''2.0'', rID = GFloat64 2,
          Result = GMap [(''contents'',
            GSlice [GMap [(''uri'', GString ''/blob.bin''),
                          (''mimeType'', GString ''application/octet-stream''),
                          (''text'', GString [CHR 0x00, CHR 0xFF, CHR 0x10])]])],
          Error = None\<rparr>"
proof -
  have f: "os_ReadFile (files example_state) ''/gone.txt''
             = Inl ''open /gone.txt: no such file or directory''"
    by (simp add: os_ReadFile_def example_state_def example_files_def)
  have g: "os_ReadFile (files mime_state) ''/page.html'' = Inr ''<p>hi</p>''"
    "os_ReadFile (files mime_state) ''/blob.bin'' = Inr [CHR 0x00, CHR 0xFF, CHR 0x10]"
    by (simp_all add: os_ReadFile_def mime_state_def mime_files_def)
  have a: "handleRequest example_state
          (request (GFloat64 2) ''resources/read'' (GMap [(''uri'', GString ''/gone.txt'')]))
        = (Returns (error_response (GFloat64 2) (- 32602)
             (''Failed to read resource: '' @ ''open /gone.txt: no such file or directory'')),
           example_state)"
    by (simp add: handleRequest_def handleReadResource_def uri_param example_resources f
        readable_mime_def) (simp add: request_def)
  have b: "handleRequest mime_state
          (request (GFloat64 2) ''resources/read'' (GMap [(''uri'', GString ''/page.html'')]))
        = (Returns (error_response (GFloat64 2) (- 32602) ''Unsupported resource type''),
           mime_state)"
    by (simp add: handleRequest_def handleReadResource_def uri_param mime_resources
        readable_mime_def) (simp add: request_def)
  have c: "handleRequest mime_state
          (request (GFloat64 2) ''resources/read'' (GMap [(''uri'', GString ''/blob.bin'')]))
        = (Returns (result_response (GFloat64 2)
             (contents_val ''/blob.bin'' ''application/octet-stream''
                [CHR 0x00, CHR 0xFF, CHR 0x10])), mime_state)"
    by (simp add: handleRequest_def handleReadResource_def uri_param mime_resources g
        readable_mime_def) (simp add: request_def)
  show ?thesis
    by (simp add: a b c g example_resources error_response_def result_response_def
        contents_val_def)
qed

lemma keyed_by_uri_New: "keyed_by_uri (NewMCPServer nm ver toolRegistry)"
  by (simp add: keyed_by_uri_def NewMCPServer_def)

lemma list_all_update:
  "list_all (\<lambda>kr. f (snd kr) = fst kr) rs \<Longrightarrow> f r = k
     \<Longrightarrow> list_all (\<lambda>kr. f (snd kr) = fst kr) (AList.update k r rs)"
  by (induction rs) auto

lemma keyed_by_uri_Register:
  "keyed_by_uri s \<Longrightarrow> keyed_by_uri (RegisterResource uri nm description mimeType metadata s)"
  by (simp add: keyed_by_uri_def RegisterResource_def list_all_update)

lemma keyed_by_uri_lookup:
  "keyed_by_uri s \<Longrightarrow> map_of (resources s) k = Some r \<Longrightarrow> URI r = k"
proof -
  assume k: "keyed_by_uri s" and m: "map_of (resources s) k = Some r"
  from m have "(k, r) \<in> set (resources s)"
    by (rule map_of_SomeD)
  with k have "URI (snd (k, r)) = fst (k, r)"
    unfolding keyed_by_uri_def list_all_iff by blast
  then show ?thesis by simp
qed

lemma example_keyed: "keyed_by_uri (srv example_state)"
  by (simp add: example_state_def example_server_def keyed_by_uri_Register keyed_by_uri_New)

text \<open>
  C10, as the code has it.  When the params of a \<^verbatim>\<open>tools/call\<close> or
  \<^verbatim>\<open>resources/read\<close> request are not a \<^verbatim>\<open>map[string]interface{}\<close> (absent, or a
  JSON value other than an object), the typed parameters keep their zero values, and,
  provided no tool is registered under the empty name, dispatch returns one response,
  an error with code -32602, without a panic and without a change of state.  The
  proviso is for \<^verbatim>\<open>tools/call\<close> only.  For \<^verbatim>\<open>resources/read\<close> nothing is
  required beyond what \<^verbatim>\<open>RegisterResource\<close> maintains: a resource under the
  empty uri has the empty path as its file, and that cannot be read.
\<close>

theorem absent_params:
  assumes "Method req = ''tools/call'' \<or> Method req = ''resources/read''"
    and "\<forall>kvs. Params req \<noteq> GMap kvs"
    and "Method req = ''tools/call'' \<longrightarrow> map_of (tools (srv st)) [] = None"
    and "keyed_by_uri (srv st)"
  shows "CallToolParams_of (Params req) = \<lparr>ctName = [], ctArguments = []\<rparr>
       \<and> ReadResourceParams_of (Params req) = []
       \<and> (\<exists>msg. handleRequest st req = (Returns (error_response (ID req) (- 32602) msg), st))"
proof -
  have c: "CallToolParams_of (Params req) = \<lparr>ctName = [], ctArguments = []\<rparr>"
    using assms(2) by (cases "Params req") (simp_all add: CallToolParams_of_def)
  have r: "ReadResourceParams_of (Params req) = []"
    using assms(2) by (cases "Params req") (simp_all add: ReadResourceParams_of_def)
  have "\<exists>msg. handleRequest st req = (Returns (error_response (ID req) (- 32602) msg), st)"
    using assms(1)
  proof
    assume "Method req = ''tools/call''"
    with assms(3) have "map_of (tools (srv st)) [] = None" by simp
    with \<open>Method req = ''tools/call''\<close> show ?thesis
      by (auto simp add: handleRequest_def handleCallTool_def Execute_def c)
  next
    assume "Method req = ''resources/read''"
    then show ?thesis
      using keyed_by_uri_lookup [OF assms(4), of "[]"]
      by (auto simp add: handleRequest_def handleReadResource_def r os_ReadFile_def
          split: option.splits)
  qed
  with c r show ?thesis by simp
qed

lemma unnamed_keyed: "keyed_by_uri (srv unnamed_state)"
  by (simp add: unnamed_state_def keyed_by_uri_New)

theorem absent_params_witness:
  "Method (request (GFloat64 4) ''tools/call'' (GString ''echo'')) = ''tools/call''
   \<and> map_of (tools (srv example_state)) [] = None
   \<and> keyed_by_uri (srv example_state)
   \<and> handleRequest example_state (request (GFloat64 4) ''tools/call'' (GString ''echo''))
      = (Returns (error_response (GFloat64 4) (- 32602)
           ''Tool execution failed: tool  not found''), example_state)
   \<and> Method (request (GFloat64 4) ''resources/read'' GNil) = ''resources/read''
   \<and> map_of (tools (srv unnamed_state)) [] = Some unnamed_tool
   \<and> keyed_by_uri (srv unnamed_state)
   \<and> (\<exists>msg. handleRequest unnamed_state (request (GFloat64 4) ''resources/read'' GNil)
          = (Returns (error_response (GFloat64 4) (- 32602) msg), unnamed_state))"
proof -
  let ?req = "request (GFloat64 4) ''tools/call'' (GString ''echo'')"
  let ?read = "request (GFloat64 4) ''resources/read'' GNil"
  have m: "Method ?req = ''tools/call'' \<or> Method ?req = ''resources/read''"
    by (simp add: request_def)
  have p: "\<forall>kvs. Params ?req \<noteq> GMap kvs"
    by (simp add: request_def)
  have t: "map_of (tools (srv example_state)) [] = None"
    by (simp add: example_tools)
  have i: "ID ?req = GFloat64 4" "Method ?req = ''tools/call''"
    by (simp_all add: request_def)
  from absent_params [OF m p _ example_keyed] t
  have c: "CallToolParams_of (Params ?req) = \<lparr>ctName = [], ctArguments = []\<rparr>"
    by simp
  have first: "handleRequest example_state ?req
      = (Returns (error_response (GFloat64 4) (- 32602)
           ''Tool execution failed: tool  not found''), example_state)"
    using t i by (simp add: handleRequest_def handleCallTool_def Execute_def c example_tools)
  have m2: "Method ?read = ''tools/call'' \<or> Method ?read = ''resources/read''"
    and p2: "\<forall>kvs. Params ?read \<noteq> GMap kvs"
    and n2: "Method ?read = ''tools/call'' \<longrightarrow> map_of (tools (srv unnamed_state)) [] = None"
    and i2: "ID ?read = GFloat64 4" "Method ?read = ''resources/read''"
    by (simp_all add: request_def)
  have u: "map_of (tools (srv unnamed_state)) [] = Some unnamed_tool"
    by (simp add: unnamed_state_def NewMCPServer_def Register_def unnamed_tool_def)
  from absent_params [OF m2 p2 n2 unnamed_keyed]
  have second: "\<exists>msg. handleRequest unnamed_state ?read
          = (Returns (error_response (GFloat64 4) (- 32602) msg), unnamed_state)"
    by (simp add: i2)
  from first second t u i i2 example_keyed unnamed_keyed show ?thesis
    by simp
qed

text \<open>
  Without the proviso the claim fails: a registry may hold a tool whose
  \<^verbatim>\<open>Name()\<close> is the empty string, and a \<^verbatim>\<open>tools/call\<close> without params then runs
  it and returns its result.
\<close>

theorem absent_params_counterexample:
  "fst (handleRequest unnamed_state (request (GFloat64 4) ''tools/call'' GNil))
     = Returns \<lparr>rJSONRPC = ''2.0'', rID = GFloat64 4,
         Result = GMap [(''content'',
           GSlice [GMap [(''type'', GString ''text''), (''text'', GString ''ok'')]])],
         Error = None\<rparr>"
  by (simp add: handleRequest_def handleCallTool_def Execute_def CallToolParams_of_def
      request_def unnamed_state_def NewMCPServer_def Register_def unnamed_tool_def
      result_response_def)


section \<open>The codec and the client\<close>

text \<open>
  C2.  What the codec does to an id that is an \<^verbatim>\<open>int64\<close>, as every id the client
  generates is: the decoded envelope holds a \<^verbatim>\<open>float64\<close> in its place, for a
  response with a result, for a response with an error and for a request alike; and
  beyond \<open>2 ^ 53\<close> the value changes as well (\<open>2 ^ 53 + 1\<close> comes back as
  \<open>2 ^ 53\<close>).  The rest of the envelope, and which of result and error is present, is
  reconstructed.
\<close>

theorem codec_changes_int64_id:
  "decode_response (encode_response (result_response (GInt64 1) (GString ''ok'')))
     = Some (result_response (GFloat64 1) (GString ''ok''))
   \<and> decode_response
       (encode_response (error_response (GInt64 1) (- 32601) ''Method not found''))
     = Some (error_response (GFloat64 1) (- 32601) ''Method not found'')
   \<and> decode_request (encode_request (request (GInt64 1) ''tools/list'' GNil))
     = Some (request (GFloat64 1) ''tools/list'' GNil)
   \<and> decode_request
       (encode_request (request (GInt64 9007199254740993) ''tools/list'' GNil))
     = Some (request (GFloat64 9007199254740992) ''tools/list'' GNil)"
  by code_simp

lemma decode_interface_not_int64: "decode_interface j \<noteq> Some (GInt64 n)"
  by (cases j) auto

text \<open>
  C1.  The first public call on a new client, followed through the example server and
  back.  The request goes out under the id \<open>GInt64 1\<close>, and the table holds the
  caller's channel under that key.  The server's answer comes back with the id
  \<open>GFloat64 1\<close>.  The read loop finds no entry under that key, so nothing is
  delivered: the channel stays empty, the log shows the insertion and the write only,
  the caller cannot receive, and the call ends with \<^verbatim>\<open>request timeout\<close>.
\<close>

theorem generated_id_never_matches:
  "map_option sent (run list_tools_sent NewMCPClient)
     = Some [encode_request (request (GInt64 1) ''tools/list'' GNil)]
   \<and> fst (handleConnection example_state 1
          [Value (encode_request (request (GInt64 1) ''tools/list'' GNil))])
     = [list_tools_reply]
   \<and> map_option rID (decode_response list_tools_reply) = Some (GFloat64 1)
   \<and> map_option (entry (GInt64 1))
        (run (list_tools_sent @ [Read (decode_response list_tools_reply)]) NewMCPClient)
     = Some (Some 0)
   \<and> map_option (entry (GFloat64 1))
        (run (list_tools_sent @ [Read (decode_response list_tools_reply)]) NewMCPClient)
     = Some None
   \<and> map_option (slot 0)
        (run (list_tools_sent @ [Read (decode_response list_tools_reply)]) NewMCPClient)
     = Some []
   \<and> map_option trace
        (run (list_tools_sent @ [Read (decode_response list_tools_reply)]) NewMCPClient)
     = Some [Inserted 0, Written 0]
   \<and> run (list_tools_sent @ [Read (decode_response list_tools_reply), Receive 0]) NewMCPClient
     = None
   \<and> map_option (caller 0)
        (run (list_tools_sent @ [Read (decode_response list_tools_reply), Timeout 0, Return 0])
           NewMCPClient)
     = Some (Some (Finished (request (GInt64 1) ''tools/list'' GNil) (Inl ''request timeout'')))"
  by code_simp

text \<open>
  C8.  A response whose id is a JSON array decodes without error, to an id whose
  dynamic type is a slice.  Looking that id up in the table panics, and the panic of
  the read loop ends the process: no further step is possible.
\<close>

theorem unhashable_id_crashes:
  "decode_response reply_with_array_id
     = Some \<lparr>rJSONRPC = ''2.0'', rID = GSlice [GFloat64 1], Result = GString ''x'',
             Error = None\<rparr>
   \<and> map_option crashed (run [Read (decode_response reply_with_array_id)] NewMCPClient)
     = Some True
   \<and> run [Read (decode_response reply_with_array_id), Invoke 0 ''tools/list'' GNil]
        NewMCPClient = None"
  by code_simp

lemma deliver_unknown_id:
  "hashable (rID resp) \<Longrightarrow> responses c (rID resp) = None \<Longrightarrow> deliver resp c = c"
  by (simp add: deliver_def)

lemma deliver_only_registered:
  "chans (deliver resp c) ch \<noteq> chans c ch \<Longrightarrow> responses c (rID resp) = Some ch"
  by (auto simp add: deliver_def split: if_splits option.splits)


subsection \<open>Invariants of the client\<close>


lemma run_append:
  "run (xs @ ys) c = (case run xs c of None \<Rightarrow> None | Some c' \<Rightarrow> run ys c')"
  by (induction xs arbitrary: c) (auto split: option.splits)















text \<open>
  The decoder never produces an \<^verbatim>\<open>int64\<close> id, so whatever the read loop is given
  by it satisfies \<open>from_wire\<close>.
\<close>

lemma decode_interface_id: "decode_interface j = Some v \<Longrightarrow> \<not> is_int64 v"
  by (cases j) auto

lemma response_member_id:
  "response_member (Some r) kv = Some r' \<Longrightarrow> \<not> is_int64 (rID r) \<Longrightarrow> \<not> is_int64 (rID r')"
  by (cases kv) (auto simp add: response_member_def split: if_splits dest: decode_interface_id)

lemma foldl_response_id:
  "foldl response_member acc kvs = Some resp
   \<Longrightarrow> (\<And>r. acc = Some r \<Longrightarrow> \<not> is_int64 (rID r)) \<Longrightarrow> \<not> is_int64 (rID resp)"
proof (induction kvs arbitrary: acc)
  case Nil
  then show ?case by simp
next
  case (Cons kv kvs)
  have "\<And>r. response_member acc kv = Some r \<Longrightarrow> \<not> is_int64 (rID r)"
  proof -
    fix r
    assume a: "response_member acc kv = Some r"
    then obtain r0 where r0: "acc = Some r0"
      by (cases acc) (simp_all add: response_member_def)
    with a Cons.prems(2) show "\<not> is_int64 (rID r)"
      using response_member_id by blast
  qed
  with Cons.IH [of "response_member acc kv"] Cons.prems(1) show ?case by simp
qed

lemma decoded_from_wire: "from_wire (Read (decode_response j))"
proof (cases "decode_response j")
  case None
  then show ?thesis by simp
next
  case (Some resp)
  have "\<not> is_int64 (rID resp)"
  proof (cases j)
    case (JObj kvs)
    with Some have "foldl response_member (Some zero_response) kvs = Some resp"
      by (simp add: decode_response_def)
    then show ?thesis
      by (rule foldl_response_id) (simp add: zero_response_def)
  qed (use Some in \<open>auto simp add: decode_response_def zero_response_def\<close>)
  with Some show ?thesis by simp
qed








end
